theory Spec2Isabelle
  imports Main
begin

section \<open>The RDS failover simulation tool (rds-failover/app/simFail.go)\<close>

text \<open>
  The program has two modes. In \<open>monitor\<close> mode it polls the status of one database
  instance on a five-second ticker, for ever. In \<open>failover\<close> mode it asks the control
  plane for a reboot with forced failover and then polls until the instance is
  \<open>available\<close> again, sleeping ten seconds after every other answer.

  Everything outside the program is gathered in a record \<open>world\<close>: the file system, the
  JSON decoder, the SDK's configuration loader and the two control-plane operations.
  Everything the program does to the outside is gathered in a record \<open>state\<close>: a logical
  clock in seconds, the log of the control-plane calls made, and the lines printed.
  The clock only moves where the source waits (\<open>ticker.C\<close>, \<open>time.Sleep\<close>).
\<close>

subsection \<open>Data\<close>

text \<open>
  Go's \<open>error\<close> values. \<open>External\<close> stands for an error made outside the program (the
  operating system, the JSON decoder, the SDK); the other constructors are the
  \<open>fmt.Errorf\<close> calls of the source, which embed the text of their cause.
\<close>

datatype error =
    External string
  | ErrorReadingConfigFile error
  | ErrorParsingConfigFile error
  | UnableToLoadAWSConfig error
  | NoDBInstanceFound
  | FailedToTriggerFailover error
  | ErrorDescribingDBInstance error

text \<open>
  A call either returns or panics (a nil pointer is dereferenced). Not returning at
  all is the value \<open>None\<close> of the \<open>option\<close> that wraps the result of every function
  that contains a loop.
\<close>

datatype 'a outcome = Returned 'a | Panicked

record SimulationConfig =
  DBIdentifier :: string
  Endpoint :: string
  Port :: int

text \<open>
  The two fields of the SDK's \<open>types.DBInstance\<close> that the program reads. Both are
  \<open>*string\<close> in the SDK, hence optional here.
\<close>

record DBInstance =
  DBInstanceStatus :: "string option"
  AvailabilityZone :: "string option"

text \<open>The five \<open>color\<close> printers declared at the top of the source.\<close>

datatype printer = success | warning | failure | info | header

text \<open>
  One constructor for each print statement of the source, in the order of the source.
  The two status lines carry the timestamp they print (\<open>time.Now()\<close>, here the logical
  clock), the printer that the \<open>switch\<close> selected, and the strings printed.
\<close>

datatype line =
    Banner
  | ModeLine string
  | ConfigLoadError error
  | InvalidMode
  | FinalError error
  | MonitorStart
  | InstanceLine string
  | EndpointLine string
  | CheckError error
  | StatusLine nat printer string string
  | FailoverStart
  | TargetLine string
  | FailoverInitiated
  | FailoverMonitorHeader
  | FailoverStatusLine nat printer string
  | FailoverCompleted

text \<open>
  The outside of the program. \<open>describeDBInstances n ident\<close> is the answer to the
  call number \<open>n\<close> (counted from \<open>0\<close>) of \<open>DescribeDBInstances\<close> for \<open>ident\<close>: an error
  of the call itself, or the list of matching instances.
\<close>

record world =
  readFile :: "string \<Rightarrow> error + string"
  jsonUnmarshal :: "string \<Rightarrow> error + SimulationConfig"
  loadDefaultConfig :: "error option"
  rebootDBInstance :: "string \<Rightarrow> error option"
  describeDBInstances :: "nat \<Rightarrow> string \<Rightarrow> error + DBInstance list"

text \<open>
  \<open>describeLog\<close> holds the clock value of every \<open>DescribeDBInstances\<close> call made so far,
  \<open>rebootLog\<close> the identifier of every \<open>RebootDBInstance\<close> call, \<open>printed\<close> the lines
  printed, oldest first.
\<close>

record state =
  clock :: nat
  describeLog :: "nat list"
  rebootLog :: "string list"
  printed :: "line list"

definition emit :: "line \<Rightarrow> state \<Rightarrow> state" where
  "emit l st = st\<lparr>printed := printed st @ [l]\<rparr>"

definition wait :: "nat \<Rightarrow> state \<Rightarrow> state" where
  "wait d st = st\<lparr>clock := clock st + d\<rparr>"

text \<open>What the body of a loop leaves behind: go round again, or leave with a result.\<close>

datatype 'r ctl = Next state | Stop 'r state

subsection \<open>Loading the configuration\<close>

text \<open>\<open>loadConfig\<close> returns the pair \<open>(*SimulationConfig, error)\<close> of the source.\<close>

definition loadConfig :: "world \<Rightarrow> string \<Rightarrow> SimulationConfig option \<times> error option" where
  "loadConfig w path =
     (case readFile w path of
        Inl err \<Rightarrow> (None, Some (ErrorReadingConfigFile err))
      | Inr file \<Rightarrow>
          (case jsonUnmarshal w file of
             Inl err \<Rightarrow> (None, Some (ErrorParsingConfigFile err))
           | Inr simConfig \<Rightarrow> (Some simConfig, None)))"

subsection \<open>Status lines\<close>

definition printStatus :: "string \<Rightarrow> string \<Rightarrow> state \<Rightarrow> state" where
  "printStatus status az st =
     emit (StatusLine (clock st)
            (if status = ''available'' then success
             else if status = ''rebooting'' \<or> status = ''modifying'' then warning
             else failure)
            status az) st"

definition printFailoverStatus :: "string \<Rightarrow> state \<Rightarrow> state" where
  "printFailoverStatus status st =
     emit (FailoverStatusLine (clock st)
            (if status = ''available'' then success
             else if status = ''rebooting'' \<or> status = ''modifying'' then warning
             else failure)
            status) st"

subsection \<open>The status query\<close>

text \<open>The control-plane call: its answer is the world's, and the call is logged.\<close>

definition callDescribe :: "world \<Rightarrow> string \<Rightarrow> state \<Rightarrow> (error + DBInstance list) \<times> state" where
  "callDescribe w dbIdentifier st =
     (describeDBInstances w (length (describeLog st)) dbIdentifier,
      st\<lparr>describeLog := describeLog st @ [clock st]\<rparr>)"

definition getRDSStatus ::
  "world \<Rightarrow> string \<Rightarrow> state \<Rightarrow> (string \<times> string \<times> error option) outcome \<times> state" where
  "getRDSStatus w dbIdentifier st =
     (case callDescribe w dbIdentifier st of
        (Inl err, st1) \<Rightarrow> (Returned ('''', '''', Some err), st1)
      | (Inr instances, st1) \<Rightarrow>
          (case instances of
             [] \<Rightarrow> (Returned ('''', '''', Some NoDBInstanceFound), st1)
           | instance # _ \<Rightarrow>
               (case DBInstanceStatus instance of
                  None \<Rightarrow> (Panicked, st1)
                | Some status \<Rightarrow>
                    (case AvailabilityZone instance of
                       None \<Rightarrow> (Panicked, st1)
                     | Some az \<Rightarrow> (Returned (status, az, None), st1)))))"

subsection \<open>Monitor mode\<close>

text \<open>
  One round of \<open>for range ticker.C\<close>: the receive from the ticker's channel lets five
  seconds pass, then the body runs. The body has no \<open>return\<close> and no \<open>break\<close>.
\<close>

definition monitorBody :: "world \<Rightarrow> string \<Rightarrow> state \<Rightarrow> (error option) outcome ctl" where
  "monitorBody w dbIdentifier st =
     (case getRDSStatus w dbIdentifier (wait 5 st) of
        (Panicked, st1) \<Rightarrow> Stop Panicked st1
      | (Returned (status, az, err), st1) \<Rightarrow>
          (case err of
             Some e \<Rightarrow> Next (emit (CheckError e) st1)
           | None \<Rightarrow> Next (printStatus status az st1)))"

partial_function (option) monitorLoop ::
  "world \<Rightarrow> string \<Rightarrow> state \<Rightarrow> ((error option) outcome \<times> state) option" where
  "monitorLoop w dbIdentifier st =
     (case monitorBody w dbIdentifier st of
        Next st1 \<Rightarrow> monitorLoop w dbIdentifier st1
      | Stop r st1 \<Rightarrow> Some (r, st1))"

text \<open>The state after the first \<open>n\<close> rounds of the loop, or where it stopped before.\<close>

fun monitorRounds :: "world \<Rightarrow> string \<Rightarrow> nat \<Rightarrow> state \<Rightarrow> (error option) outcome ctl" where
  "monitorRounds w dbIdentifier 0 st = Next st"
| "monitorRounds w dbIdentifier (Suc n) st =
     (case monitorBody w dbIdentifier st of
        Next st1 \<Rightarrow> monitorRounds w dbIdentifier n st1
      | Stop r st1 \<Rightarrow> Stop r st1)"

definition monitorDatabase ::
  "world \<Rightarrow> SimulationConfig option \<Rightarrow> state \<Rightarrow> ((error option) outcome \<times> state) option" where
  "monitorDatabase w simConfig st =
     (let st1 = emit MonitorStart st in
      case simConfig of
        None \<Rightarrow> Some (Panicked, st1)
      | Some c \<Rightarrow>
          (let st2 = emit (EndpointLine (Endpoint c)) (emit (InstanceLine (DBIdentifier c)) st1) in
           case loadDefaultConfig w of
             Some err \<Rightarrow> Some (Returned (Some (UnableToLoadAWSConfig err)), st2)
           | None \<Rightarrow> monitorLoop w (DBIdentifier c) st2))"

subsection \<open>Failover mode\<close>

text \<open>
  One round of the \<open>for\<close> loop of \<open>monitorFailoverStatus\<close>: query, report, leave when
  the status is \<open>available\<close>, sleep ten seconds otherwise.
\<close>

definition failoverBody :: "world \<Rightarrow> string \<Rightarrow> state \<Rightarrow> (error option) outcome ctl" where
  "failoverBody w dbIdentifier st =
     (case callDescribe w dbIdentifier st of
        (Inl err, st1) \<Rightarrow> Stop (Returned (Some (ErrorDescribingDBInstance err))) st1
      | (Inr instances, st1) \<Rightarrow>
          (case instances of
             [] \<Rightarrow> Stop (Returned (Some NoDBInstanceFound)) st1
           | instance # _ \<Rightarrow>
               (case DBInstanceStatus instance of
                  None \<Rightarrow> Stop Panicked st1
                | Some status \<Rightarrow>
                    (let st2 = printFailoverStatus status st1 in
                     if status = ''available''
                     then Stop (Returned None) (emit FailoverCompleted st2)
                     else Next (wait 10 st2)))))"

partial_function (option) failoverLoop ::
  "world \<Rightarrow> string \<Rightarrow> state \<Rightarrow> ((error option) outcome \<times> state) option" where
  "failoverLoop w dbIdentifier st =
     (case failoverBody w dbIdentifier st of
        Next st1 \<Rightarrow> failoverLoop w dbIdentifier st1
      | Stop r st1 \<Rightarrow> Some (r, st1))"

definition monitorFailoverStatus ::
  "world \<Rightarrow> string \<Rightarrow> state \<Rightarrow> ((error option) outcome \<times> state) option" where
  "monitorFailoverStatus w dbIdentifier st =
     failoverLoop w dbIdentifier (emit FailoverMonitorHeader st)"

definition triggerFailover ::
  "world \<Rightarrow> SimulationConfig option \<Rightarrow> state \<Rightarrow> ((error option) outcome \<times> state) option" where
  "triggerFailover w simConfig st =
     (let st1 = emit FailoverStart st in
      case simConfig of
        None \<Rightarrow> Some (Panicked, st1)
      | Some c \<Rightarrow>
          (let st2 = emit (TargetLine (DBIdentifier c)) st1 in
           case loadDefaultConfig w of
             Some err \<Rightarrow> Some (Returned (Some (UnableToLoadAWSConfig err)), st2)
           | None \<Rightarrow>
               (let st3 = st2\<lparr>rebootLog := rebootLog st2 @ [DBIdentifier c]\<rparr> in
                case rebootDBInstance w (DBIdentifier c) of
                  Some err \<Rightarrow> Some (Returned (Some (FailedToTriggerFailover err)), st3)
                | None \<Rightarrow> monitorFailoverStatus w (DBIdentifier c) (emit FailoverInitiated st3))))"

subsection \<open>The entry point\<close>

text \<open>
  The end of \<open>main\<close>: the error left in \<open>err\<close>, if any, is printed. A panic or a loop
  that never ends is passed on as it is.
\<close>

definition reportError ::
  "((error option) outcome \<times> state) option \<Rightarrow> (unit outcome \<times> state) option" where
  "reportError r =
     (case r of
        None \<Rightarrow> None
      | Some (Panicked, st) \<Rightarrow> Some (Panicked, st)
      | Some (Returned err, st) \<Rightarrow>
          Some (Returned (), (case err of Some e \<Rightarrow> emit (FinalError e) st | None \<Rightarrow> st)))"

text \<open>
  \<open>main\<close>, with the values of the two flags as arguments. In the \<open>default\<close> branch of
  the \<open>switch\<close> nothing is assigned to \<open>err\<close>, which still holds the result of
  \<open>loadConfig\<close>.
\<close>

definition main :: "world \<Rightarrow> string \<Rightarrow> string \<Rightarrow> state \<Rightarrow> (unit outcome \<times> state) option" where
  "main w configFile mode st =
     (let st1 = emit (ModeLine mode) (emit Banner st) in
      case loadConfig w configFile of
        (simConfig, err) \<Rightarrow>
          (let st2 = (case err of Some e \<Rightarrow> emit (ConfigLoadError e) st1 | None \<Rightarrow> st1) in
           if mode = ''monitor'' then reportError (monitorDatabase w simConfig st2)
           else if mode = ''failover'' then reportError (triggerFailover w simConfig st2)
           else reportError (Some (Returned err, emit InvalidMode st2))))"

subsection \<open>The first rounds of the two loops\<close>

text \<open>
  The state after the first \<open>n\<close> rounds of the loop of \<open>monitorFailoverStatus\<close>, or where
  it stopped before. \<open>monitorRounds\<close> and \<open>failoverRounds\<close> make the lines printed by a loop
  that has not ended, or never ends, something to state theorems about.
\<close>

fun failoverRounds :: "world \<Rightarrow> string \<Rightarrow> nat \<Rightarrow> state \<Rightarrow> (error option) outcome ctl" where
  "failoverRounds w dbIdentifier 0 st = Next st"
| "failoverRounds w dbIdentifier (Suc n) st =
     (case failoverBody w dbIdentifier st of
        Next st1 \<Rightarrow> failoverRounds w dbIdentifier n st1
      | Stop r st1 \<Rightarrow> Stop r st1)"

text \<open>
  An answer of the control plane is one a status can be read from when it is an error,
  an empty list, or a list whose first instance has both fields set.
\<close>

definition fieldsSet :: "error + DBInstance list \<Rightarrow> bool" where
  "fieldsSet answer =
     (case answer of
        Inl err \<Rightarrow> True
      | Inr [] \<Rightarrow> True
      | Inr (i # _) \<Rightarrow> DBInstanceStatus i \<noteq> None \<and> AvailabilityZone i \<noteq> None)"

subsection \<open>Concrete inputs\<close>

text \<open>
  The configuration and the answers of the scenarios, used where a theorem is applied to
  a concrete run. \<open>scripted answers later\<close> answers the first calls from the list and every
  later call with \<open>later\<close>.
\<close>

definition exampleConfig :: SimulationConfig where
  "exampleConfig = \<lparr>DBIdentifier = ''db-1'', Endpoint = ''x'', Port = 3306\<rparr>"

definition instanceOf :: "string \<Rightarrow> string \<Rightarrow> DBInstance" where
  "instanceOf status az = \<lparr>DBInstanceStatus = Some status, AvailabilityZone = Some az\<rparr>"

definition scripted ::
  "(error + DBInstance list) list \<Rightarrow> (error + DBInstance list) \<Rightarrow> nat \<Rightarrow> string \<Rightarrow> error + DBInstance list" where
  "scripted answers later n ident = (if n < length answers then answers ! n else later)"

definition exampleWorld :: "error option \<Rightarrow> (nat \<Rightarrow> string \<Rightarrow> error + DBInstance list) \<Rightarrow> world" where
  "exampleWorld reboot describe =
     \<lparr>readFile = (\<lambda>path. if path = ''config.json'' then Inr ''{}'' else Inl (External ''no such file'')),
      jsonUnmarshal = (\<lambda>file. Inr exampleConfig),
      loadDefaultConfig = None,
      rebootDBInstance = (\<lambda>ident. reboot),
      describeDBInstances = describe\<rparr>"

definition initial :: state where
  "initial = \<lparr>clock = 0, describeLog = [], rebootLog = [], printed = []\<rparr>"

definition afterOnePoll :: state where
  "afterOnePoll = \<lparr>clock = 10, describeLog = [0], rebootLog = [''db-1''],
     printed = [FailoverStart, TargetLine ''db-1'', FailoverInitiated, FailoverMonitorHeader,
       FailoverStatusLine 0 warning ''rebooting'']\<rparr>"

definition alwaysAvailable :: world where
  "alwaysAvailable = exampleWorld None (scripted [] (Inr [instanceOf ''available'' ''us-east-1a'']))"

definition scenarioB :: world where
  "scenarioB = exampleWorld None
     (scripted [Inr [instanceOf ''rebooting'' ''us-east-1a''],
                Inr [instanceOf ''rebooting'' ''us-east-1b''],
                Inr [instanceOf ''available'' ''us-east-1b'']] (Inr []))"

definition rebootRefused :: world where
  "rebootRefused = exampleWorld (Some (External ''throttled'')) (scripted [] (Inr []))"

definition notFoundFirst :: world where
  "notFoundFirst = exampleWorld None (scripted [Inr []] (Inr [instanceOf ''available'' ''us-east-1a'']))"

definition notFoundSecond :: world where
  "notFoundSecond = exampleWorld None (scripted [Inr [instanceOf ''rebooting'' ''us-east-1a'']] (Inr []))"

definition timeoutFirst :: world where
  "timeoutFirst = exampleWorld None
     (scripted [Inl (External ''timeout'')] (Inr [instanceOf ''available'' ''us-east-1a'']))"

definition flaky :: world where
  "flaky = exampleWorld None
     (scripted [Inl (External ''timeout''), Inr []] (Inr [instanceOf ''stopped'' ''us-east-1a'']))"

definition twoInstances :: world where
  "twoInstances = exampleWorld None
     (scripted [Inr [instanceOf ''available'' ''us-east-1a'', instanceOf ''stopped'' ''us-east-1b''],
                Inl (External ''timeout'')] (Inr []))"

definition zoneMissing :: world where
  "zoneMissing = exampleWorld None
     (scripted [Inr [instanceOf ''available'' ''us-east-1a'']]
        (Inr [\<lparr>DBInstanceStatus = Some ''available'', AvailabilityZone = None\<rparr>]))"

definition brokenConfig :: world where
  "brokenConfig = (exampleWorld None (scripted [] (Inr [])))
     \<lparr>jsonUnmarshal := (\<lambda>file. Inl (External ''unexpected end of JSON input''))\<rparr>"

section \<open>Properties\<close>

subsection \<open>State updates\<close>

lemma emit_sel [simp]:
  "clock (emit l st) = clock st" "describeLog (emit l st) = describeLog st"
  "rebootLog (emit l st) = rebootLog st" "printed (emit l st) = printed st @ [l]"
  by (simp_all add: emit_def)

lemma wait_sel [simp]:
  "clock (wait d st) = clock st + d" "describeLog (wait d st) = describeLog st"
  "rebootLog (wait d st) = rebootLog st" "printed (wait d st) = printed st"
  by (simp_all add: wait_def)

lemma reportError_Returned:
  "reportError (Some (Returned err, st)) =
     Some (Returned (), (case err of Some e \<Rightarrow> emit (FinalError e) st | None \<Rightarrow> st))"
  by (simp add: reportError_def)

lemma reportError_Panicked: "reportError (Some (Panicked, st)) = Some (Panicked, st)"
  by (simp add: reportError_def)

subsection \<open>Unfolding the loops\<close>

lemma monitorLoop_Next:
  "monitorBody w ident st = Next st1 \<Longrightarrow> monitorLoop w ident st = monitorLoop w ident st1"
  by (subst monitorLoop.simps) simp

lemma monitorLoop_Stop:
  "monitorBody w ident st = Stop r st1 \<Longrightarrow> monitorLoop w ident st = Some (r, st1)"
  by (subst monitorLoop.simps) simp

lemma failoverLoop_Next:
  "failoverBody w ident st = Next st1 \<Longrightarrow> failoverLoop w ident st = failoverLoop w ident st1"
  by (subst failoverLoop.simps) simp

lemma failoverLoop_Stop:
  "failoverBody w ident st = Stop r st1 \<Longrightarrow> failoverLoop w ident st = Some (r, st1)"
  by (subst failoverLoop.simps) simp

text \<open>The first \<open>n\<close> rounds are the first \<open>n\<close> rounds of the loop.\<close>

lemma monitorLoop_rounds_Next:
  "monitorRounds w ident n st = Next st' \<Longrightarrow> monitorLoop w ident st = monitorLoop w ident st'"
  by (induction n arbitrary: st) (auto simp: monitorLoop_Next split: ctl.splits)

lemma monitorLoop_rounds_Stop:
  "monitorRounds w ident n st = Stop r st' \<Longrightarrow> monitorLoop w ident st = Some (r, st')"
  by (induction n arbitrary: st) (auto simp: monitorLoop_Next monitorLoop_Stop split: ctl.splits)

lemma failoverLoop_rounds_Next:
  "failoverRounds w ident n st = Next st' \<Longrightarrow> failoverLoop w ident st = failoverLoop w ident st'"
  by (induction n arbitrary: st) (auto simp: failoverLoop_Next split: ctl.splits)

lemma failoverLoop_rounds_Stop:
  "failoverRounds w ident n st = Stop r st' \<Longrightarrow> failoverLoop w ident st = Some (r, st')"
  by (induction n arbitrary: st) (auto simp: failoverLoop_Next failoverLoop_Stop split: ctl.splits)

subsection \<open>One round, by the answer of the control plane\<close>

lemma monitorBody_error:
  "describeDBInstances w (length (describeLog st)) ident = Inl e \<Longrightarrow>
   monitorBody w ident st =
     Next (st\<lparr>clock := clock st + 5, describeLog := describeLog st @ [clock st + 5],
              printed := printed st @ [CheckError e]\<rparr>)"
  by (simp add: monitorBody_def getRDSStatus_def callDescribe_def wait_def emit_def)

lemma monitorBody_notfound:
  "describeDBInstances w (length (describeLog st)) ident = Inr [] \<Longrightarrow>
   monitorBody w ident st =
     Next (st\<lparr>clock := clock st + 5, describeLog := describeLog st @ [clock st + 5],
              printed := printed st @ [CheckError NoDBInstanceFound]\<rparr>)"
  by (simp add: monitorBody_def getRDSStatus_def callDescribe_def wait_def emit_def)

lemma failoverBody_error:
  "describeDBInstances w (length (describeLog st)) ident = Inl e \<Longrightarrow>
   failoverBody w ident st =
     Stop (Returned (Some (ErrorDescribingDBInstance e))) (st\<lparr>describeLog := describeLog st @ [clock st]\<rparr>)"
  by (simp add: failoverBody_def callDescribe_def)

lemma failoverBody_notfound:
  "describeDBInstances w (length (describeLog st)) ident = Inr [] \<Longrightarrow>
   failoverBody w ident st =
     Stop (Returned (Some NoDBInstanceFound)) (st\<lparr>describeLog := describeLog st @ [clock st]\<rparr>)"
  by (simp add: failoverBody_def callDescribe_def)

lemma failoverBody_available:
  "describeDBInstances w (length (describeLog st)) ident = Inr (i # others) \<Longrightarrow>
   DBInstanceStatus i = Some ''available'' \<Longrightarrow>
   failoverBody w ident st =
     Stop (Returned None)
       (st\<lparr>describeLog := describeLog st @ [clock st],
           printed := printed st @ [FailoverStatusLine (clock st) success ''available'', FailoverCompleted]\<rparr>)"
  by (simp add: failoverBody_def callDescribe_def printFailoverStatus_def emit_def)

lemma failoverBody_other:
  "describeDBInstances w (length (describeLog st)) ident = Inr (i # others) \<Longrightarrow>
   DBInstanceStatus i = Some status \<Longrightarrow> status \<noteq> ''available'' \<Longrightarrow>
   failoverBody w ident st =
     Next (st\<lparr>clock := clock st + 10, describeLog := describeLog st @ [clock st],
              printed := printed st @ [FailoverStatusLine (clock st)
                (if status = ''rebooting'' \<or> status = ''modifying'' then warning else failure) status]\<rparr>)"
  by (simp add: failoverBody_def callDescribe_def printFailoverStatus_def emit_def wait_def)




subsection \<open>One round, by its effect on the clock\<close>





subsection \<open>One round, and the first rounds, by the lines printed\<close>








subsection \<open>The monitor loop has no way out but a panic\<close>

lemma monitorBody_no_return: "monitorBody w ident st = Stop r st1 \<Longrightarrow> r = Panicked"
  by (auto simp: monitorBody_def split: prod.splits outcome.splits option.splits)

lemma monitorBody_fieldsSet:
  "fieldsSet (describeDBInstances w (length (describeLog st)) ident) \<Longrightarrow>
   \<exists>st1. monitorBody w ident st = Next st1"
  by (auto simp: fieldsSet_def monitorBody_def getRDSStatus_def callDescribe_def wait_def
      split: sum.splits list.splits option.splits)

text \<open>
  Both facts go by the induction rule of the least fixed point: what holds of every
  result of the body, given that it holds of every result of the recursive call, holds of
  every result of the loop.
\<close>

lemma monitorLoop_only_panics:
  assumes "monitorLoop w ident st = Some y"
  shows "fst y = Panicked"
proof (rule monitorLoop.raw_induct [where P = "\<lambda>w ident st y. fst y = Panicked", rotated 1, OF assms])
  fix f w ident st y
  assume IH: "\<And>ident st b z. f ident st b = Some z \<Longrightarrow> fst z = Panicked"
    and step: "(case monitorBody w ident st of
                  Next st1 \<Rightarrow> f w ident st1
                | Stop r st1 \<Rightarrow> Some (r, st1)) = Some y"
  show "fst y = Panicked"
  proof (cases "monitorBody w ident st")
    case (Next st1)
    with step have "f w ident st1 = Some y" by simp
    then show ?thesis by (rule IH)
  next
    case (Stop r st1)
    with step have "y = (r, st1)" by simp
    moreover from Stop have "r = Panicked" by (rule monitorBody_no_return)
    ultimately show ?thesis by simp
  qed
qed

lemma monitorLoop_no_result:
  assumes "monitorLoop w ident st = Some y"
  shows "\<not> (\<forall>n. fieldsSet (describeDBInstances w n ident))"
proof (rule monitorLoop.raw_induct
    [where P = "\<lambda>w ident st y. \<not> (\<forall>n. fieldsSet (describeDBInstances w n ident))", rotated 1, OF assms])
  fix f w ident st y
  assume IH: "\<And>ident st b z. f ident st b = Some z \<Longrightarrow>
                \<not> (\<forall>n. fieldsSet (describeDBInstances ident n st))"
    and step: "(case monitorBody w ident st of
                  Next st1 \<Rightarrow> f w ident st1
                | Stop r st1 \<Rightarrow> Some (r, st1)) = Some y"
  show "\<not> (\<forall>n. fieldsSet (describeDBInstances w n ident))"
  proof
    assume wf: "\<forall>n. fieldsSet (describeDBInstances w n ident)"
    then obtain st1 where "monitorBody w ident st = Next st1"
      using monitorBody_fieldsSet by blast
    with step have "f w ident st1 = Some y" by simp
    from IH [OF this] wf show False by simp
  qed
qed

subsection \<open>The failover loop ends at the first answer that says available\<close>

lemma failoverLoop_recovers:
  assumes "\<forall>j<k. \<exists>i others.
             describeDBInstances w (length (describeLog st) + j) ident = Inr (i # others)
             \<and> DBInstanceStatus i = Some (status j) \<and> status j \<noteq> ''available''"
    and "\<exists>i others.
           describeDBInstances w (length (describeLog st) + k) ident = Inr (i # others)
           \<and> DBInstanceStatus i = Some ''available''"
  shows "failoverLoop w ident st =
           Some (Returned None,
                 st\<lparr>clock := clock st + 10 * k,
                    describeLog := describeLog st @ map (\<lambda>j. clock st + 10 * j) [0..<Suc k],
                    printed := printed st
                      @ map (\<lambda>j. FailoverStatusLine (clock st + 10 * j)
                               (if status j = ''rebooting'' \<or> status j = ''modifying'' then warning else failure)
                               (status j)) [0..<k]
                      @ [FailoverStatusLine (clock st + 10 * k) success ''available'', FailoverCompleted]\<rparr>)"
  using assms
proof (induction k arbitrary: st status)
  case 0
  then obtain i others where
    "describeDBInstances w (length (describeLog st)) ident = Inr (i # others)"
    "DBInstanceStatus i = Some ''available''"
    by auto
  then have "failoverBody w ident st =
     Stop (Returned None)
       (st\<lparr>describeLog := describeLog st @ [clock st],
           printed := printed st @ [FailoverStatusLine (clock st) success ''available'', FailoverCompleted]\<rparr>)"
    by (rule failoverBody_available)
  then show ?case
    by (simp add: failoverLoop_Stop)
next
  case (Suc k)
  let ?st1 = "st\<lparr>clock := clock st + 10, describeLog := describeLog st @ [clock st],
              printed := printed st @ [FailoverStatusLine (clock st)
                (if status 0 = ''rebooting'' \<or> status 0 = ''modifying'' then warning else failure) (status 0)]\<rparr>"
  from Suc.prems(1) obtain i others where
    "describeDBInstances w (length (describeLog st)) ident = Inr (i # others)"
    "DBInstanceStatus i = Some (status 0)" "status 0 \<noteq> ''available''"
    by force
  then have body: "failoverBody w ident st = Next ?st1"
    by (rule failoverBody_other)
  have a: "\<forall>j<k. \<exists>i others.
             describeDBInstances w (length (describeLog ?st1) + j) ident = Inr (i # others)
             \<and> DBInstanceStatus i = Some (status (Suc j)) \<and> status (Suc j) \<noteq> ''available''"
    using Suc.prems(1) by auto
  have b: "\<exists>i others.
             describeDBInstances w (length (describeLog ?st1) + k) ident = Inr (i # others)
             \<and> DBInstanceStatus i = Some ''available''"
    using Suc.prems(2) by simp
  have "failoverLoop w ident st = failoverLoop w ident ?st1"
    using body by (rule failoverLoop_Next)
  also note Suc.IH [of ?st1 "\<lambda>j. status (Suc j)", OF a b]
  finally show ?case
    by (simp add: map_upt_Suc del: upt_Suc)
qed

section \<open>The claims\<close>

subsection \<open>C1: no instance matches the identifier\<close>

text \<open>
  Claim C1, as amended. When the control plane answers a query with an empty list of
  instances, the failover loop ends in that round, whatever the state reached by the
  rounds before, and returns the error \<open>no DB instance found\<close>, which \<open>main\<close> then prints.
  The monitor loop does not end: it prints one \<open>Error checking RDS\<close> line for that round
  and goes on with the next tick.
\<close>

theorem not_found_by_mode:
  assumes "describeDBInstances w (length (describeLog st)) ident = Inr []"
  shows "failoverLoop w ident st =
           Some (Returned (Some NoDBInstanceFound), st\<lparr>describeLog := describeLog st @ [clock st]\<rparr>)
         \<and> reportError (failoverLoop w ident st) =
           Some (Returned (), st\<lparr>describeLog := describeLog st @ [clock st],
                                 printed := printed st @ [FinalError NoDBInstanceFound]\<rparr>)
         \<and> monitorBody w ident st =
           Next (st\<lparr>clock := clock st + 5, describeLog := describeLog st @ [clock st + 5],
                    printed := printed st @ [CheckError NoDBInstanceFound]\<rparr>)
         \<and> monitorLoop w ident st =
           monitorLoop w ident
             (st\<lparr>clock := clock st + 5, describeLog := describeLog st @ [clock st + 5],
                 printed := printed st @ [CheckError NoDBInstanceFound]\<rparr>)"
proof -
  note f = failoverLoop_Stop [OF failoverBody_notfound [OF assms]]
  note m = monitorBody_notfound [OF assms]
  show ?thesis
    by (simp add: f m monitorLoop_Next [OF m] reportError_Returned emit_def)
qed

text \<open>
  The theorem at a concrete run: the instance is rebooting at the first poll of the
  failover loop and gone at the second.
\<close>

theorem not_found_by_mode_witness:
  "failoverLoop notFoundSecond ''db-1'' afterOnePoll =
     Some (Returned (Some NoDBInstanceFound),
       \<lparr>clock = 10, describeLog = [0, 10], rebootLog = [''db-1''],
        printed = [FailoverStart, TargetLine ''db-1'', FailoverInitiated, FailoverMonitorHeader,
          FailoverStatusLine 0 warning ''rebooting'']\<rparr>)
   \<and> monitorBody notFoundSecond ''db-1'' afterOnePoll =
     Next \<lparr>clock = 15, describeLog = [0, 15], rebootLog = [''db-1''],
        printed = [FailoverStart, TargetLine ''db-1'', FailoverInitiated, FailoverMonitorHeader,
          FailoverStatusLine 0 warning ''rebooting'', CheckError NoDBInstanceFound]\<rparr>"
proof -
  have a: "describeDBInstances notFoundSecond (length (describeLog afterOnePoll)) ''db-1'' = Inr []"
    by (simp add: notFoundSecond_def exampleWorld_def scripted_def afterOnePoll_def)
  from not_found_by_mode [OF a]
  show ?thesis
    by (simp add: afterOnePoll_def)
qed

text \<open>
  The claim as it was stated fails in monitor mode. The first query finds no instance;
  the loop prints the error, waits for the next tick, queries again and reports the
  instance as available: after two rounds it is still running.
\<close>

theorem monitor_not_found_counterexample:
  "monitorRounds notFoundFirst ''db-1'' 2 initial =
     Next \<lparr>clock = 10, describeLog = [5, 10], rebootLog = [],
           printed = [CheckError NoDBInstanceFound, StatusLine 10 success ''available'' ''us-east-1a'']\<rparr>"
  by (simp add: numeral_2_eq_2 notFoundFirst_def exampleWorld_def scripted_def instanceOf_def initial_def
      monitorBody_def getRDSStatus_def callDescribe_def wait_def emit_def printStatus_def)

subsection \<open>C2: the printer of a status\<close>

text \<open>
  Claim C2. The \<open>switch\<close> of \<open>printStatus\<close> and that of \<open>printFailoverStatus\<close> select the
  same printer for every status string: \<open>success\<close> (Healthy) for \<open>available\<close>, \<open>warning\<close>
  (Transitional) for \<open>rebooting\<close> and \<open>modifying\<close>, \<open>failure\<close> (Unknown) for every other
  string, the empty one included. Both functions are total and return no error.
\<close>

theorem status_printer_total:
  "\<exists>p. printStatus status az st = emit (StatusLine (clock st) p status az) st
     \<and> printFailoverStatus status st = emit (FailoverStatusLine (clock st) p status) st
     \<and> (status = ''available'' \<longrightarrow> p = success)
     \<and> (status = ''rebooting'' \<or> status = ''modifying'' \<longrightarrow> p = warning)
     \<and> (status \<noteq> ''available'' \<and> status \<noteq> ''rebooting'' \<and> status \<noteq> ''modifying'' \<longrightarrow> p = failure)
     \<and> (status = '''' \<longrightarrow> p = failure)"
  by (simp add: printStatus_def printFailoverStatus_def)

text \<open>The theorem at five status strings.\<close>

theorem status_printer_total_witness:
  "printed (printStatus ''available'' ''us-east-1a'' initial) = [StatusLine 0 success ''available'' ''us-east-1a'']
   \<and> printed (printFailoverStatus ''rebooting'' initial) = [FailoverStatusLine 0 warning ''rebooting'']
   \<and> printed (printFailoverStatus ''modifying'' initial) = [FailoverStatusLine 0 warning ''modifying'']
   \<and> printed (printStatus ''stopped'' ''us-east-1a'' initial) = [StatusLine 0 failure ''stopped'' ''us-east-1a'']
   \<and> printed (printStatus '''' '''' initial) = [StatusLine 0 failure '''' '''']"
  using status_printer_total [of "''available''" "''us-east-1a''" initial]
    status_printer_total [of "''rebooting''" "''us-east-1a''" initial]
    status_printer_total [of "''modifying''" "''us-east-1a''" initial]
    status_printer_total [of "''stopped''" "''us-east-1a''" initial]
    status_printer_total [of "''''" "''''" initial]
  by (auto simp: initial_def)

subsection \<open>C3: the reboot request fails\<close>

text \<open>
  Claim C3. When \<open>RebootDBInstance\<close> returns an error, \<open>triggerFailover\<close> returns at once
  with that error wrapped in \<open>failed to trigger failover\<close>: nothing is printed after the
  line that names the target, the recovery loop is not entered and \<open>DescribeDBInstances\<close>
  is not called. \<open>main\<close> prints the error and returns.
\<close>

theorem triggerFailover_reboot_error:
  assumes "loadDefaultConfig w = None"
    and "rebootDBInstance w (DBIdentifier c) = Some e"
  shows "triggerFailover w (Some c) st =
           Some (Returned (Some (FailedToTriggerFailover e)),
                 st\<lparr>rebootLog := rebootLog st @ [DBIdentifier c],
                    printed := printed st @ [FailoverStart, TargetLine (DBIdentifier c)]\<rparr>)
         \<and> (loadConfig w path = (Some c, None) \<longrightarrow>
             main w path ''failover'' st =
               Some (Returned (),
                     st\<lparr>rebootLog := rebootLog st @ [DBIdentifier c],
                        printed := printed st @ [Banner, ModeLine ''failover'', FailoverStart,
                          TargetLine (DBIdentifier c), FinalError (FailedToTriggerFailover e)]\<rparr>))"
  using assms
  by (simp add: triggerFailover_def main_def reportError_Returned emit_def)

text \<open>The theorem at a run where the control plane throttles the reboot request.\<close>

theorem triggerFailover_reboot_error_witness:
  "triggerFailover rebootRefused (Some exampleConfig) initial =
     Some (Returned (Some (FailedToTriggerFailover (External ''throttled''))),
           \<lparr>clock = 0, describeLog = [], rebootLog = [''db-1''],
            printed = [FailoverStart, TargetLine ''db-1'']\<rparr>)
   \<and> main rebootRefused ''config.json'' ''failover'' initial =
     Some (Returned (),
           \<lparr>clock = 0, describeLog = [], rebootLog = [''db-1''],
            printed = [Banner, ModeLine ''failover'', FailoverStart, TargetLine ''db-1'',
              FinalError (FailedToTriggerFailover (External ''throttled''))]\<rparr>)"
proof -
  have a: "loadDefaultConfig rebootRefused = None"
    by (simp add: rebootRefused_def exampleWorld_def)
  have b: "rebootDBInstance rebootRefused (DBIdentifier exampleConfig) = Some (External ''throttled'')"
    by (simp add: rebootRefused_def exampleWorld_def)
  have c: "loadConfig rebootRefused ''config.json'' = (Some exampleConfig, None)"
    by (simp add: rebootRefused_def exampleWorld_def loadConfig_def)
  from triggerFailover_reboot_error [OF a b, where path = "''config.json''" and st = initial] c
  show ?thesis
    by (simp add: exampleConfig_def initial_def)
qed

subsection \<open>C4: polling until the instance is available\<close>

text \<open>
  Claim C4. Let the reboot request succeed, let the first \<open>N - 1\<close> answers after it carry
  a status other than \<open>available\<close> and the answer number \<open>N\<close> the status \<open>available\<close>. Then
  \<open>triggerFailover\<close> returns with no error after exactly \<open>N\<close> calls of
  \<open>DescribeDBInstances\<close>, made ten seconds apart, one status line for each, and
  \<open>Failover completed successfully\<close> as its last line.
\<close>

theorem failover_polls_until_available:
  assumes "loadDefaultConfig w = None"
    and "rebootDBInstance w (DBIdentifier c) = None"
    and "0 < N"
    and "\<forall>j<N - 1. \<exists>i others.
           describeDBInstances w (length (describeLog st) + j) (DBIdentifier c) = Inr (i # others)
           \<and> DBInstanceStatus i = Some (status j) \<and> status j \<noteq> ''available''"
    and "\<exists>i others.
           describeDBInstances w (length (describeLog st) + (N - 1)) (DBIdentifier c) = Inr (i # others)
           \<and> DBInstanceStatus i = Some ''available''"
  shows "triggerFailover w (Some c) st =
           Some (Returned None,
                 st\<lparr>clock := clock st + 10 * (N - 1),
                    describeLog := describeLog st @ map (\<lambda>j. clock st + 10 * j) [0..<N],
                    rebootLog := rebootLog st @ [DBIdentifier c],
                    printed := printed st
                      @ [FailoverStart, TargetLine (DBIdentifier c), FailoverInitiated, FailoverMonitorHeader]
                      @ map (\<lambda>j. FailoverStatusLine (clock st + 10 * j)
                               (if status j = ''rebooting'' \<or> status j = ''modifying'' then warning else failure)
                               (status j)) [0..<N - 1]
                      @ [FailoverStatusLine (clock st + 10 * (N - 1)) success ''available'',
                         FailoverCompleted]\<rparr>)"
proof -
  let ?st4 = "emit FailoverMonitorHeader (emit FailoverInitiated
      ((emit (TargetLine (DBIdentifier c)) (emit FailoverStart st))
         \<lparr>rebootLog := rebootLog (emit (TargetLine (DBIdentifier c)) (emit FailoverStart st)) @ [DBIdentifier c]\<rparr>))"
  have len: "length (describeLog ?st4) = length (describeLog st)"
    by simp
  have N: "Suc (N - 1) = N"
    using assms(3) by simp
  have "triggerFailover w (Some c) st = failoverLoop w (DBIdentifier c) ?st4"
    using assms(1,2) by (simp add: triggerFailover_def monitorFailoverStatus_def)
  also note failoverLoop_recovers [of "N - 1" w ?st4 "DBIdentifier c" status, unfolded len N, OF assms(4,5)]
  finally show ?thesis
    by (simp add: emit_def)
qed

text \<open>The theorem at scenario B: rebooting, rebooting, available.\<close>

theorem failover_polls_until_available_witness:
  "triggerFailover scenarioB (Some exampleConfig) initial =
     Some (Returned None,
           \<lparr>clock = 20, describeLog = [0, 10, 20], rebootLog = [''db-1''],
            printed = [FailoverStart, TargetLine ''db-1'', FailoverInitiated, FailoverMonitorHeader,
              FailoverStatusLine 0 warning ''rebooting'', FailoverStatusLine 10 warning ''rebooting'',
              FailoverStatusLine 20 success ''available'', FailoverCompleted]\<rparr>)"
proof -
  have a: "loadDefaultConfig scenarioB = None"
    by (simp add: scenarioB_def exampleWorld_def)
  have b: "rebootDBInstance scenarioB (DBIdentifier exampleConfig) = None"
    by (simp add: scenarioB_def exampleWorld_def)
  have c: "0 < (3::nat)"
    by simp
  have d: "\<forall>j<3 - 1. \<exists>i others.
           describeDBInstances scenarioB (length (describeLog initial) + j) (DBIdentifier exampleConfig)
             = Inr (i # others)
           \<and> DBInstanceStatus i = Some ((\<lambda>j. ''rebooting'') j) \<and> (\<lambda>j. ''rebooting'') j \<noteq> ''available''"
    by (auto simp: scenarioB_def exampleWorld_def scripted_def instanceOf_def initial_def less_Suc_eq
        numeral_2_eq_2)
  have e: "\<exists>i others.
           describeDBInstances scenarioB (length (describeLog initial) + (3 - 1)) (DBIdentifier exampleConfig)
             = Inr (i # others)
           \<and> DBInstanceStatus i = Some ''available''"
    by (simp add: scenarioB_def exampleWorld_def scripted_def instanceOf_def initial_def)
  from failover_polls_until_available [OF a b c d e]
  show ?thesis
    by (simp add: initial_def exampleConfig_def upt_rec numeral_2_eq_2 numeral_3_eq_3)
qed

subsection \<open>C5: the query itself fails\<close>

text \<open>
  Claim C5, as amended. When the call of \<open>DescribeDBInstances\<close> fails, the monitor loop
  prints one \<open>Error checking RDS\<close> line and goes on with the next tick. The loop of
  \<open>monitorFailoverStatus\<close> makes its own call and does not go on: it returns the error,
  wrapped in \<open>error describing DB instance\<close>, in that round.
\<close>

theorem transport_error_by_mode:
  assumes "describeDBInstances w (length (describeLog st)) ident = Inl e"
  shows "monitorBody w ident st =
           Next (st\<lparr>clock := clock st + 5, describeLog := describeLog st @ [clock st + 5],
                    printed := printed st @ [CheckError e]\<rparr>)
         \<and> monitorLoop w ident st =
           monitorLoop w ident
             (st\<lparr>clock := clock st + 5, describeLog := describeLog st @ [clock st + 5],
                 printed := printed st @ [CheckError e]\<rparr>)
         \<and> failoverLoop w ident st =
           Some (Returned (Some (ErrorDescribingDBInstance e)),
                 st\<lparr>describeLog := describeLog st @ [clock st]\<rparr>)"
proof -
  note f = failoverLoop_Stop [OF failoverBody_error [OF assms]]
  note m = monitorBody_error [OF assms]
  show ?thesis
    by (simp add: f m monitorLoop_Next [OF m])
qed

text \<open>The theorem at a run whose first query times out.\<close>

theorem transport_error_by_mode_witness:
  "monitorBody timeoutFirst ''db-1'' initial =
     Next \<lparr>clock = 5, describeLog = [5], rebootLog = [], printed = [CheckError (External ''timeout'')]\<rparr>
   \<and> failoverLoop timeoutFirst ''db-1'' initial =
     Some (Returned (Some (ErrorDescribingDBInstance (External ''timeout''))),
       \<lparr>clock = 0, describeLog = [0], rebootLog = [], printed = []\<rparr>)"
proof -
  have a: "describeDBInstances timeoutFirst (length (describeLog initial)) ''db-1'' = Inl (External ''timeout'')"
    by (simp add: timeoutFirst_def exampleWorld_def scripted_def initial_def)
  from transport_error_by_mode [OF a]
  show ?thesis
    by (simp add: initial_def)
qed

text \<open>
  The claim as it was stated fails in failover mode. The reboot request succeeds, the
  first query times out, and \<open>triggerFailover\<close> returns the error after that one query,
  although the second query would have found the instance available.
\<close>

theorem failover_transport_error_counterexample:
  "triggerFailover timeoutFirst (Some exampleConfig) initial =
     Some (Returned (Some (ErrorDescribingDBInstance (External ''timeout''))),
       \<lparr>clock = 0, describeLog = [0], rebootLog = [''db-1''],
        printed = [FailoverStart, TargetLine ''db-1'', FailoverInitiated, FailoverMonitorHeader]\<rparr>)"
  by (simp add: triggerFailover_def monitorFailoverStatus_def timeoutFirst_def exampleWorld_def
      exampleConfig_def initial_def scripted_def emit_def failoverLoop_Stop [OF failoverBody_error])

subsection \<open>C6: the cadence of the queries\<close>




subsection \<open>C7: the configuration cannot be loaded\<close>

text \<open>
  Claim C7. When the file cannot be read or its content cannot be decoded, \<open>loadConfig\<close>
  returns no configuration and an error; \<open>main\<close> prints the error and goes on to the
  \<open>switch\<close>, where the function of the selected mode is called with the nil
  configuration. That function prints its first line and panics when it reads the
  identifier.
\<close>

theorem config_error_not_fatal:
  assumes "readFile w path = Inl e0 \<and> e = ErrorReadingConfigFile e0
           \<or> (\<exists>file. readFile w path = Inr file \<and> jsonUnmarshal w file = Inl e0
                \<and> e = ErrorParsingConfigFile e0)"
  shows "let st2 = emit (ConfigLoadError e) (emit (ModeLine mode) (emit Banner st)) in
         loadConfig w path = (None, Some e)
         \<and> (mode = ''monitor'' \<longrightarrow>
              main w path mode st = reportError (monitorDatabase w None st2)
              \<and> main w path mode st = Some (Panicked, emit MonitorStart st2))
         \<and> (mode = ''failover'' \<longrightarrow>
              main w path mode st = reportError (triggerFailover w None st2)
              \<and> main w path mode st = Some (Panicked, emit FailoverStart st2))"
proof -
  from assms have l: "loadConfig w path = (None, Some e)"
    by (auto simp: loadConfig_def)
  show ?thesis
    by (simp add: l main_def monitorDatabase_def triggerFailover_def reportError_Panicked Let_def)
qed

text \<open>The theorem at a file that does not exist and at a file that does not decode.\<close>

theorem config_error_not_fatal_witness:
  "main brokenConfig ''missing.json'' ''monitor'' initial =
     Some (Panicked, \<lparr>clock = 0, describeLog = [], rebootLog = [],
       printed = [Banner, ModeLine ''monitor'',
         ConfigLoadError (ErrorReadingConfigFile (External ''no such file'')), MonitorStart]\<rparr>)
   \<and> main brokenConfig ''config.json'' ''failover'' initial =
     Some (Panicked, \<lparr>clock = 0, describeLog = [], rebootLog = [],
       printed = [Banner, ModeLine ''failover'',
         ConfigLoadError (ErrorParsingConfigFile (External ''unexpected end of JSON input'')),
         FailoverStart]\<rparr>)"
proof -
  have a: "readFile brokenConfig ''missing.json'' = Inl (External ''no such file'')
             \<and> ErrorReadingConfigFile (External ''no such file'')
                 = ErrorReadingConfigFile (External ''no such file'')
           \<or> (\<exists>file. readFile brokenConfig ''missing.json'' = Inr file
                \<and> jsonUnmarshal brokenConfig file = Inl (External ''no such file'')
                \<and> ErrorReadingConfigFile (External ''no such file'')
                    = ErrorParsingConfigFile (External ''no such file''))"
    by (simp add: brokenConfig_def exampleWorld_def)
  have b: "readFile brokenConfig ''config.json'' = Inl (External ''unexpected end of JSON input'')
             \<and> ErrorParsingConfigFile (External ''unexpected end of JSON input'')
                 = ErrorReadingConfigFile (External ''unexpected end of JSON input'')
           \<or> (\<exists>file. readFile brokenConfig ''config.json'' = Inr file
                \<and> jsonUnmarshal brokenConfig file = Inl (External ''unexpected end of JSON input'')
                \<and> ErrorParsingConfigFile (External ''unexpected end of JSON input'')
                    = ErrorParsingConfigFile (External ''unexpected end of JSON input''))"
    by (simp add: brokenConfig_def exampleWorld_def)
  have "main brokenConfig ''missing.json'' ''monitor'' initial =
     Some (Panicked, emit MonitorStart
       (emit (ConfigLoadError (ErrorReadingConfigFile (External ''no such file'')))
         (emit (ModeLine ''monitor'') (emit Banner initial))))"
    using config_error_not_fatal [OF a, of "''monitor''" initial] by (auto simp: Let_def)
  moreover have "main brokenConfig ''config.json'' ''failover'' initial =
     Some (Panicked, emit FailoverStart
       (emit (ConfigLoadError (ErrorParsingConfigFile (External ''unexpected end of JSON input'')))
         (emit (ModeLine ''failover'') (emit Banner initial))))"
    using config_error_not_fatal [OF b, of "''failover''" initial] by (auto simp: Let_def)
  ultimately show ?thesis
    by (simp add: initial_def emit_def)
qed

subsection \<open>C8: a mode that is neither monitor nor failover\<close>

text \<open>
  Claim C8. For every other value of the mode flag \<open>main\<close> prints \<open>Invalid mode specified\<close>
  and returns: neither \<open>monitorDatabase\<close> nor \<open>triggerFailover\<close> prints its first line, no
  control-plane call is made and the clock does not move. Around that line \<open>main\<close> prints
  the error of \<open>loadConfig\<close>, if there is one, once before and once after.
\<close>

theorem invalid_mode_runs_nothing:
  assumes "mode \<noteq> ''monitor''" and "mode \<noteq> ''failover''"
  shows "main w path mode st =
           Some (Returned (),
                 st\<lparr>printed := printed st @ [Banner, ModeLine mode]
                      @ (case snd (loadConfig w path) of Some e \<Rightarrow> [ConfigLoadError e] | None \<Rightarrow> [])
                      @ [InvalidMode]
                      @ (case snd (loadConfig w path) of Some e \<Rightarrow> [FinalError e] | None \<Rightarrow> [])\<rparr>)"
  using assms
  by (cases "loadConfig w path") (auto simp: main_def reportError_Returned emit_def split: option.splits)

text \<open>The theorem at the mode \<open>status\<close>.\<close>

theorem invalid_mode_runs_nothing_witness:
  "main alwaysAvailable ''config.json'' ''status'' initial =
     Some (Returned (), \<lparr>clock = 0, describeLog = [], rebootLog = [],
       printed = [Banner, ModeLine ''status'', InvalidMode]\<rparr>)"
proof -
  have a: "''status'' \<noteq> ''monitor''" and b: "''status'' \<noteq> ''failover''"
    by simp_all
  have c: "loadConfig alwaysAvailable ''config.json'' = (Some exampleConfig, None)"
    by (simp add: alwaysAvailable_def exampleWorld_def loadConfig_def)
  from invalid_mode_runs_nothing [OF a b, of alwaysAvailable "''config.json''" initial]
  show ?thesis
    by (simp add: c initial_def)
qed

subsection \<open>C9: what the status query returns\<close>

text \<open>
  Claim C9. When the call succeeds with a list that is not empty, the result of
  \<open>getRDSStatus\<close> is a function of the first instance alone: its status and its
  availability zone, with a nil error, when both fields are set (a nil field is
  dereferenced and panics). When the call fails, or the list is empty, both strings
  returned are empty and the error is not nil.
\<close>

theorem getRDSStatus_first_instance:
  "(describeDBInstances w (length (describeLog st)) ident = Inr (i # others) \<longrightarrow>
      fst (getRDSStatus w ident st) =
        (case DBInstanceStatus i of
           None \<Rightarrow> Panicked
         | Some status \<Rightarrow>
             (case AvailabilityZone i of None \<Rightarrow> Panicked | Some az \<Rightarrow> Returned (status, az, None))))
   \<and> (describeDBInstances w (length (describeLog st)) ident = Inr (i # others)
        \<and> DBInstanceStatus i = Some status \<and> AvailabilityZone i = Some az \<longrightarrow>
      fst (getRDSStatus w ident st) = Returned (status, az, None))
   \<and> (describeDBInstances w (length (describeLog st)) ident = Inl e \<longrightarrow>
      fst (getRDSStatus w ident st) = Returned ('''', '''', Some e))
   \<and> (describeDBInstances w (length (describeLog st)) ident = Inr [] \<longrightarrow>
      fst (getRDSStatus w ident st) = Returned ('''', '''', Some NoDBInstanceFound))"
  by (simp add: getRDSStatus_def callDescribe_def split: option.splits)

text \<open>
  The theorem at three queries: two instances are returned, then the call times out,
  then no instance is returned.
\<close>

theorem getRDSStatus_first_instance_witness:
  "fst (getRDSStatus twoInstances ''db-1'' initial) = Returned (''available'', ''us-east-1a'', None)
   \<and> fst (getRDSStatus twoInstances ''db-1'' (initial\<lparr>describeLog := [5]\<rparr>))
       = Returned ('''', '''', Some (External ''timeout''))
   \<and> fst (getRDSStatus twoInstances ''db-1'' (initial\<lparr>describeLog := [5, 10]\<rparr>))
       = Returned ('''', '''', Some NoDBInstanceFound)"
proof -
  have a: "describeDBInstances twoInstances (length (describeLog initial)) ''db-1''
             = Inr (instanceOf ''available'' ''us-east-1a'' # [instanceOf ''stopped'' ''us-east-1b''])
           \<and> DBInstanceStatus (instanceOf ''available'' ''us-east-1a'') = Some ''available''
           \<and> AvailabilityZone (instanceOf ''available'' ''us-east-1a'') = Some ''us-east-1a''"
    by (simp add: twoInstances_def exampleWorld_def scripted_def initial_def instanceOf_def)
  have b: "describeDBInstances twoInstances (length (describeLog (initial\<lparr>describeLog := [5]\<rparr>))) ''db-1''
             = Inl (External ''timeout'')"
    by (simp add: twoInstances_def exampleWorld_def scripted_def)
  have c: "describeDBInstances twoInstances (length (describeLog (initial\<lparr>describeLog := [5, 10]\<rparr>))) ''db-1''
             = Inr []"
    by (simp add: twoInstances_def exampleWorld_def scripted_def)
  from getRDSStatus_first_instance [of twoInstances initial "''db-1''"
      "instanceOf ''available'' ''us-east-1a''" "[instanceOf ''stopped'' ''us-east-1b'']"
      "''available''" "''us-east-1a''"] a
  have "fst (getRDSStatus twoInstances ''db-1'' initial) = Returned (''available'', ''us-east-1a'', None)"
    by blast
  moreover from getRDSStatus_first_instance [of twoInstances "initial\<lparr>describeLog := [5]\<rparr>" "''db-1''"
      _ _ _ _ "External ''timeout''"] b
  have "fst (getRDSStatus twoInstances ''db-1'' (initial\<lparr>describeLog := [5]\<rparr>))
       = Returned ('''', '''', Some (External ''timeout''))"
    by blast
  moreover from getRDSStatus_first_instance [of twoInstances "initial\<lparr>describeLog := [5, 10]\<rparr>" "''db-1''"] c
  have "fst (getRDSStatus twoInstances ''db-1'' (initial\<lparr>describeLog := [5, 10]\<rparr>))
       = Returned ('''', '''', Some NoDBInstanceFound)"
    by blast
  ultimately show ?thesis
    by blast
qed

subsection \<open>C10: monitor mode does not return\<close>

text \<open>
  Claim C10, as amended. The loop of \<open>monitorDatabase\<close> never returns, whatever the
  answers of the control plane, so \<open>monitorDatabase\<close> never returns nil: the \<open>return nil\<close>
  after the loop is not reached. When every answer is an error, an empty list or a list
  whose first instance has a status and a zone, and the configuration is there, the loop
  runs for ever.
\<close>

theorem monitor_never_returns:
  "monitorLoop w ident st \<noteq> Some (Returned r, st')
   \<and> monitorDatabase w simConfig st \<noteq> Some (Returned None, st')
   \<and> ((\<forall>n. fieldsSet (describeDBInstances w n ident)) \<longrightarrow> monitorLoop w ident st = None)
   \<and> ((\<forall>n. fieldsSet (describeDBInstances w n (DBIdentifier c))) \<and> loadDefaultConfig w = None \<longrightarrow>
        monitorDatabase w (Some c) st = None)"
proof -
  have loop: "monitorLoop w i s \<noteq> Some (Returned x, s')" for i s x s'
    using monitorLoop_only_panics [of w i s "(Returned x, s')"] by auto
  have none: "monitorLoop w i s = None" if "\<forall>n. fieldsSet (describeDBInstances w n i)" for i s
    using monitorLoop_no_result [of w i s] that by (cases "monitorLoop w i s") auto
  have "monitorDatabase w simConfig st \<noteq> Some (Returned None, st')"
    using loop by (auto simp: monitorDatabase_def Let_def split: option.splits)
  moreover have "monitorDatabase w (Some c) st = None"
    if "\<forall>n. fieldsSet (describeDBInstances w n (DBIdentifier c))" "loadDefaultConfig w = None"
    using that none by (simp add: monitorDatabase_def)
  ultimately show ?thesis
    using loop none by blast
qed

text \<open>
  The theorem at scenario A, where every answer is available, and at a run that starts
  with a timeout and an empty list and goes on with a stopped instance.
\<close>

theorem monitor_never_returns_witness:
  "monitorDatabase alwaysAvailable (Some exampleConfig) initial = None
   \<and> monitorDatabase flaky (Some exampleConfig) initial = None"
proof -
  have a: "(\<forall>n. fieldsSet (describeDBInstances alwaysAvailable n (DBIdentifier exampleConfig)))
           \<and> loadDefaultConfig alwaysAvailable = None"
    by (simp add: alwaysAvailable_def exampleWorld_def scripted_def fieldsSet_def instanceOf_def)
  have b: "(\<forall>n. fieldsSet (describeDBInstances flaky n (DBIdentifier exampleConfig)))
           \<and> loadDefaultConfig flaky = None"
    by (auto simp: flaky_def exampleWorld_def scripted_def fieldsSet_def instanceOf_def nth_Cons
        split: nat.splits)
  from monitor_never_returns [of alwaysAvailable _ initial _ _ _ exampleConfig]
    monitor_never_returns [of flaky _ initial _ _ _ exampleConfig] a b
  show ?thesis
    by blast
qed

text \<open>
  The claim as it was stated fails for a successful answer whose first instance has a
  status and no availability zone. The first round reports the instance as available;
  the second answer has no zone, \<open>getRDSStatus\<close> dereferences the nil pointer, and
  monitor mode ends there by a panic.
\<close>

theorem monitor_nil_zone_counterexample:
  "monitorDatabase zoneMissing (Some exampleConfig) initial =
     Some (Panicked,
       \<lparr>clock = 10, describeLog = [5, 10], rebootLog = [],
        printed = [MonitorStart, InstanceLine ''db-1'', EndpointLine ''x'',
          StatusLine 5 success ''available'' ''us-east-1a'']\<rparr>)"
proof -
  let ?st2 = "\<lparr>clock = 0, describeLog = [], rebootLog = [],
        printed = [MonitorStart, InstanceLine ''db-1'', EndpointLine ''x'']\<rparr>"
  have r: "monitorRounds zoneMissing ''db-1'' 2 ?st2 =
             Stop Panicked
               \<lparr>clock = 10, describeLog = [5, 10], rebootLog = [],
                printed = [MonitorStart, InstanceLine ''db-1'', EndpointLine ''x'',
                  StatusLine 5 success ''available'' ''us-east-1a'']\<rparr>"
    by (simp add: numeral_2_eq_2 zoneMissing_def exampleWorld_def scripted_def instanceOf_def
        monitorBody_def getRDSStatus_def callDescribe_def wait_def emit_def printStatus_def)
  have "monitorDatabase zoneMissing (Some exampleConfig) initial = monitorLoop zoneMissing ''db-1'' ?st2"
    by (simp add: monitorDatabase_def zoneMissing_def exampleWorld_def exampleConfig_def initial_def emit_def)
  also note monitorLoop_rounds_Stop [OF r]
  finally show ?thesis .
qed

end
